theory Spec2Isabelle
  imports Main
begin

section \<open>Email utilities of the worker package (utilities/email.js)\<close>

text \<open>
  The module composes transactional emails from three stored template fragments and
  sends them through an SMTP transport built from a scoped configuration. Every
  collaborator it imports (config store, template store, code issuer, settings context,
  string-template engine, mail transport) is a field of the record \<open>env\<close>; every call the
  module makes to one of them is recorded, in the order the calls are issued, as an
  \<open>event\<close>. An operation returns the list of events it issued together with either the
  value it resolves to (\<open>Inr\<close>) or the value it throws (\<open>Inl\<close>).
\<close>

subsection \<open>Constants of the imported modules\<close>

text \<open>
  Modelled from the spec: the enumeration \<open>EmailTemplatePurpose\<close> of \<open>../constants\<close> is
  not part of the sources at hand. The purposes the module names are constructors; any
  other purpose string a caller may pass is \<open>OTHER\<close>.
\<close>

datatype EmailTemplatePurpose =
  BASE | STYLES | PASSWORD_RECOVERY | INVITATION | WELCOME | OTHER string

text \<open>
  Modelled from the spec: \<open>TemplateTypes\<close> and \<open>Configs\<close> of \<open>../constants\<close>; the module
  uses the email category and the SMTP configuration type only.
\<close>

datatype TemplateTypes = EMAIL

datatype Configs = SMTP

text \<open>The constant \<open>TYPE\<close> of the module (the name is reserved in HOL, hence the prime).\<close>

definition TYPE' :: TemplateTypes where
  "TYPE' = EMAIL"

definition FULL_EMAIL_PURPOSES :: "EmailTemplatePurpose list" where
  "FULL_EMAIL_PURPOSES = [INVITATION, PASSWORD_RECOVERY, WELCOME]"

text \<open>\<open>Array.prototype.indexOf\<close>: the first index holding the element, or \<open>-1\<close>.\<close>

fun indexOf_from :: "'a list \<Rightarrow> 'a \<Rightarrow> int \<Rightarrow> int" where
  "indexOf_from [] x i = -1"
| "indexOf_from (y # ys) x i = (if y = x then i else indexOf_from ys x (i + 1))"

definition indexOf :: "'a list \<Rightarrow> 'a \<Rightarrow> int" where
  "indexOf xs x = indexOf_from xs x 0"

subsection \<open>Data\<close>

text \<open>A user document; the module reads its \<open>_id\<close> only.\<close>

record user =
  user_id :: string

text \<open>A stored template fragment.\<close>

record template =
  contents :: string

text \<open>
  The values a substitution context holds: strings, the user object, and the empty
  object that stands in for a missing user.
\<close>

datatype ctxval = Str string | UserObj user | EmptyObj

type_synonym template_context = "string \<rightharpoonup> ctxval"

text \<open>The \<open>auth\<close> object of an SMTP configuration, handed to the transport as it is.\<close>

record smtp_auth =
  auth_user :: string
  auth_pass :: string

text \<open>
  An SMTP configuration document. \<open>secure\<close> and \<open>selfSigned\<close> may be missing from the
  document (\<open>None\<close>), and so may \<open>auth\<close>.
\<close>

record smtp_config =
  port :: nat
  host :: string
  secure :: "bool option"
  auth :: "smtp_auth option"
  selfSigned :: "bool option"
  from_address :: string
  subject :: string

record tls_options =
  rejectUnauthorized :: bool

text \<open>The options object handed to \<open>nodemailer.createTransport\<close>.\<close>

record transport_options =
  opt_port :: nat
  opt_host :: string
  opt_secure :: bool
  opt_auth :: "smtp_auth option"
  opt_tls :: "tls_options option"

text \<open>A transport session is determined by the options it was created from.\<close>

datatype transport = Transport transport_options

record message =
  msg_from :: string
  msg_subject :: string
  msg_to :: string
  msg_html :: string

datatype couchdb = CouchDB string

text \<open>The query object of \<open>determineScopedConfig\<close>: \<open>{ type, group? }\<close>.\<close>

record config_params =
  params_type :: Configs
  params_group :: "string option"

text \<open>
  What the module throws, and what a lookup in the config store or a transport call may
  fail with.
\<close>

datatype error =
  UnableToBuildType EmailTemplatePurpose
  | Thrown string
  | TypeError
  | StoreFailure string
  | TransportFailure string

subsection \<open>Calls to collaborators\<close>

datatype event =
  DetermineScopedConfig couchdb config_params
  | CreateTransport transport_options
  | GetTemplateByPurpose TemplateTypes EmailTemplatePurpose
  | GetResetPasswordCode string
  | GetInviteCode string
  | GetSettingsTemplateContext EmailTemplatePurpose "string option"
  | ProcessString string template_context
  | SendMail transport message
  | Verify transport

text \<open>
  The collaborators, with the interfaces the module relies on: the stores answer with a
  document or with nothing, the code issuer with a code, the template engine with the
  rendered string. The lookup in the config store and the transport calls may fail
  instead, and the module catches none of these failures.
\<close>

record env =
  GLOBAL_DB :: string
  determineScopedConfig :: "couchdb \<Rightarrow> config_params \<Rightarrow> error + smtp_config option"
  getTemplateByPurpose :: "TemplateTypes \<Rightarrow> EmailTemplatePurpose \<Rightarrow> template option"
  getResetPasswordCode :: "string \<Rightarrow> string"
  getInviteCode :: "string \<Rightarrow> string"
  getSettingsTemplateContext :: "EmailTemplatePurpose \<Rightarrow> string option \<Rightarrow> template_context"
  processString :: "string \<Rightarrow> template_context \<Rightarrow> string"
  sendMail :: "transport \<Rightarrow> message \<Rightarrow> error + string"
  verify :: "transport \<Rightarrow> error + unit"

type_synonym 'a outcome = "event list \<times> (error + 'a)"

subsection \<open>The module's functions\<close>

text \<open>
  \<open>createSMTPTransport\<close>: \<open>config.secure || false\<close> is \<open>false\<close> for a missing flag, and the
  \<open>tls\<close> option is set only when \<open>config.selfSigned\<close> is truthy.
\<close>

definition createSMTPTransport :: "smtp_config \<Rightarrow> event list \<times> transport" where
  "createSMTPTransport config =
     (let options = \<lparr> opt_port = port config,
                      opt_host = host config,
                      opt_secure = (case secure config of Some b \<Rightarrow> b | None \<Rightarrow> False),
                      opt_auth = auth config,
                      opt_tls = None \<rparr>;
          options' = (if selfSigned config = Some True
                      then options \<lparr> opt_tls := Some \<lparr> rejectUnauthorized = False \<rparr> \<rparr>
                      else options)
      in ([CreateTransport options'], Transport options'))"

text \<open>
  \<open>getLinkCode\<close>: \<open>user._id\<close> is read without a check, so a missing user makes the
  property access throw a \<open>TypeError\<close> before the code issuer is called.
\<close>

definition getLinkCode ::
  "env \<Rightarrow> EmailTemplatePurpose \<Rightarrow> string \<Rightarrow> user option \<Rightarrow> (string option) outcome" where
  "getLinkCode e purpose email usr =
     (case purpose of
        PASSWORD_RECOVERY \<Rightarrow>
          (case usr of
             None \<Rightarrow> ([], Inl TypeError)
           | Some u \<Rightarrow> ([GetResetPasswordCode (user_id u)],
                        Inr (Some (getResetPasswordCode e (user_id u)))))
      | INVITATION \<Rightarrow> ([GetInviteCode email], Inr (Some (getInviteCode e email)))
      | _ \<Rightarrow> ([], Inr None))"

text \<open>
  \<open>buildEmail\<close>. The guard on the purpose comes first. The three template lookups are
  the elements of one \<open>Promise.all\<close>, issued in the order written and awaited together.
  Only when all three fragments are there does the function go on to \<open>getLinkCode\<close>,
  awaited on its own, then to the settings context, and then to the three renders:
  body and styles with \<open>context\<close>, base with \<open>context\<close> extended by the two results.
  \<open>user || {}\<close> is the empty object for a missing user.
\<close>

definition buildEmail ::
  "env \<Rightarrow> EmailTemplatePurpose \<Rightarrow> string \<Rightarrow> user option \<Rightarrow> string outcome" where
  "buildEmail e purpose email usr =
     (if indexOf FULL_EMAIL_PURPOSES purpose = -1
      then ([], Inl (UnableToBuildType purpose))
      else
        let lookups = [GetTemplateByPurpose TYPE' BASE,
                       GetTemplateByPurpose TYPE' STYLES,
                       GetTemplateByPurpose TYPE' purpose]
        in case (getTemplateByPurpose e TYPE' BASE,
                 getTemplateByPurpose e TYPE' STYLES,
                 getTemplateByPurpose e TYPE' purpose) of
             (Some base, Some styles, Some body) \<Rightarrow>
               (case getLinkCode e purpose email usr of
                  (tc, Inl err) \<Rightarrow> (lookups @ tc, Inl err)
                | (tc, Inr code) \<Rightarrow>
                    let context = (getSettingsTemplateContext e purpose code)
                          (''email'' \<mapsto> Str email,
                           ''user'' \<mapsto> (case usr of Some u \<Rightarrow> UserObj u | None \<Rightarrow> EmptyObj));
                        body' = processString e (contents body) context;
                        styles' = processString e (contents styles) context;
                        context' = context(''styles'' \<mapsto> Str styles', ''body'' \<mapsto> Str body')
                    in (lookups @ tc @
                          [GetSettingsTemplateContext purpose code,
                           ProcessString (contents body) context,
                           ProcessString (contents styles) context,
                           ProcessString (contents base) context'],
                        Inr (processString e (contents base) context')))
           | _ \<Rightarrow> (lookups, Inl (Thrown ''Unable to build email, missing base components'')))"

text \<open>
  \<open>getSmtpConfiguration\<close>: the group is put into the query only when \<open>groupId\<close> is truthy,
  so neither a missing group nor the empty string narrows the lookup.
\<close>

definition getSmtpConfiguration ::
  "env \<Rightarrow> couchdb \<Rightarrow> string option \<Rightarrow> (smtp_config option) outcome" where
  "getSmtpConfiguration e db groupId =
     (let params = \<lparr> params_type = SMTP, params_group = None \<rparr>;
          params' = (case groupId of
                       Some g \<Rightarrow> if g \<noteq> [] then params \<lparr> params_group := Some g \<rparr> else params
                     | None \<Rightarrow> params)
      in ([DetermineScopedConfig db params'], determineScopedConfig e db params'))"

text \<open>
  \<open>isEmailConfigured\<close> awaits the lookup without a \<open>try\<close>: a failed lookup is the failure
  of the function, and a lookup that resolves is compared with \<open>null\<close>.
\<close>

definition isEmailConfigured :: "env \<Rightarrow> string option \<Rightarrow> bool outcome" where
  "isEmailConfigured e groupId =
     (let db = CouchDB (GLOBAL_DB e)
      in case getSmtpConfiguration e db groupId of
           (t, Inl err) \<Rightarrow> (t, Inl err)
         | (t, Inr config) \<Rightarrow> (t, Inr (config \<noteq> None)))"

text \<open>
  \<open>sendEmail\<close>: a failed lookup propagates; the transport is created as soon as a
  configuration is found; the
  message literal is evaluated after it, and its \<open>html\<close> field awaits \<open>buildEmail\<close>.
\<close>

definition sendEmail ::
  "env \<Rightarrow> string \<Rightarrow> EmailTemplatePurpose \<Rightarrow> string option \<Rightarrow> user option \<Rightarrow> string outcome" where
  "sendEmail e email purpose groupId usr =
     (let db = CouchDB (GLOBAL_DB e)
      in case getSmtpConfiguration e db groupId of
           (t0, Inl err) \<Rightarrow> (t0, Inl err)
         | (t0, Inr None) \<Rightarrow> (t0, Inl (Thrown ''Unable to find SMTP configuration.''))
         | (t0, Inr (Some config)) \<Rightarrow>
             (let (t1, transport) = createSMTPTransport config
              in (case buildEmail e purpose email usr of
                    (t2, Inl err) \<Rightarrow> (t0 @ t1 @ t2, Inl err)
                  | (t2, Inr html) \<Rightarrow>
                      (let message = \<lparr> msg_from = from_address config,
                                        msg_subject = subject config,
                                        msg_to = email,
                                        msg_html = html \<rparr>
                       in (t0 @ t1 @ t2 @ [SendMail transport message],
                           sendMail e transport message)))))"

definition verifyConfig :: "env \<Rightarrow> smtp_config \<Rightarrow> unit outcome" where
  "verifyConfig e config =
     (let (t, transport) = createSMTPTransport config
      in (t @ [Verify transport], verify e transport))"

subsection \<open>Reading a trace\<close>

fun is_link_code_request :: "event \<Rightarrow> bool" where
  "is_link_code_request (GetResetPasswordCode uid) = True"
| "is_link_code_request (GetInviteCode email) = True"
| "is_link_code_request ev = False"

fun is_render :: "event \<Rightarrow> bool" where
  "is_render (ProcessString t c) = True"
| "is_render ev = False"

text \<open>Whether an event is a render whose context defines the key.\<close>

fun render_sees :: "string \<Rightarrow> event \<Rightarrow> bool" where
  "render_sees k (ProcessString t c) = (c k \<noteq> None)"
| "render_sees k ev = False"

fun is_transport_event :: "event \<Rightarrow> bool" where
  "is_transport_event (CreateTransport opts) = True"
| "is_transport_event (SendMail tr m) = True"
| "is_transport_event (Verify tr) = True"
| "is_transport_event ev = False"

text \<open>The three lookups a composition starts with, and whether all of them find a fragment.\<close>

definition template_lookups :: "EmailTemplatePurpose \<Rightarrow> event list" where
  "template_lookups purpose =
     [GetTemplateByPurpose TYPE' BASE,
      GetTemplateByPurpose TYPE' STYLES,
      GetTemplateByPurpose TYPE' purpose]"

definition fragments_present :: "env \<Rightarrow> EmailTemplatePurpose \<Rightarrow> bool" where
  "fragments_present e purpose =
     (getTemplateByPurpose e TYPE' BASE \<noteq> None \<and>
      getTemplateByPurpose e TYPE' STYLES \<noteq> None \<and>
      getTemplateByPurpose e TYPE' purpose \<noteq> None)"

text \<open>The query \<open>getSmtpConfiguration\<close> sends to the config store for a scope.\<close>

definition smtp_query :: "string option \<Rightarrow> config_params" where
  "smtp_query groupId =
     \<lparr> params_type = SMTP,
       params_group = (case groupId of
                         Some g \<Rightarrow> if g = [] then None else Some g
                       | None \<Rightarrow> None) \<rparr>"

text \<open>The options \<open>createSMTPTransport\<close> derives from a configuration.\<close>

definition transport_options_of :: "smtp_config \<Rightarrow> transport_options" where
  "transport_options_of config =
     \<lparr> opt_port = port config,
       opt_host = host config,
       opt_secure = (secure config = Some True),
       opt_auth = auth config,
       opt_tls = (if selfSigned config = Some True
                  then Some \<lparr> rejectUnauthorized = False \<rparr> else None) \<rparr>"

subsection \<open>Sample collaborators\<close>

text \<open>
  A small installation on which the statements below are evaluated: one SMTP
  configuration that allows a self-signed certificate, all templates stored, and an
  engine that appends the \<open>styles\<close> and \<open>body\<close> strings of its context to the template.
\<close>

definition sample_config :: smtp_config where
  "sample_config =
     \<lparr> port = 587, host = ''smtp.example.com'', secure = None, auth = None,
       selfSigned = Some True, from_address = ''noreply@example.com'',
       subject = ''Welcome'' \<rparr>"

definition sample_templates :: "TemplateTypes \<Rightarrow> EmailTemplatePurpose \<Rightarrow> template option" where
  "sample_templates ty purpose =
     (case purpose of
        BASE \<Rightarrow> Some \<lparr> contents = ''base:'' \<rparr>
      | STYLES \<Rightarrow> Some \<lparr> contents = ''css'' \<rparr>
      | OTHER name \<Rightarrow> None
      | _ \<Rightarrow> Some \<lparr> contents = ''hello'' \<rparr>)"

definition sample_render :: "string \<Rightarrow> template_context \<Rightarrow> string" where
  "sample_render t c =
     t @ (case c ''styles'' of Some (Str s) \<Rightarrow> s | _ \<Rightarrow> [])
       @ (case c ''body'' of Some (Str b) \<Rightarrow> b | _ \<Rightarrow> [])"

definition sample_settings :: "EmailTemplatePurpose \<Rightarrow> string option \<Rightarrow> template_context" where
  "sample_settings purpose code =
     (case code of
        None \<Rightarrow> [''company'' \<mapsto> Str ''Budibase'']
      | Some c \<Rightarrow> [''company'' \<mapsto> Str ''Budibase'', ''code'' \<mapsto> Str c])"

definition sample_env :: env where
  "sample_env =
     \<lparr> GLOBAL_DB = ''global-db'',
       determineScopedConfig = (\<lambda>db params. Inr (Some sample_config)),
       getTemplateByPurpose = sample_templates,
       getResetPasswordCode = (\<lambda>uid. ''reset-'' @ uid),
       getInviteCode = (\<lambda>email. ''invite-'' @ email),
       getSettingsTemplateContext = sample_settings,
       processString = sample_render,
       sendMail = (\<lambda>tr m. Inr ''250 OK''),
       verify = (\<lambda>tr. Inr ()) \<rparr>"

text \<open>The same installation with the base template missing.\<close>

definition sample_env_no_base :: env where
  "sample_env_no_base =
     sample_env \<lparr> getTemplateByPurpose :=
       (\<lambda>ty purpose. if purpose = BASE then None else sample_templates ty purpose) \<rparr>"

text \<open>The same installation with no SMTP configuration stored.\<close>

definition sample_env_no_config :: env where
  "sample_env_no_config =
     sample_env \<lparr> determineScopedConfig := (\<lambda>db params. Inr None) \<rparr>"

text \<open>The same installation while the config store cannot be reached.\<close>

definition sample_env_store_down :: env where
  "sample_env_store_down =
     sample_env \<lparr> determineScopedConfig :=
       (\<lambda>db params. Inl (StoreFailure ''connection refused'')) \<rparr>"

text \<open>The same installation with settings that define \<open>styles\<close> and \<open>body\<close> themselves.\<close>

definition sample_env_settings_keys :: env where
  "sample_env_settings_keys =
     sample_env \<lparr> getSettingsTemplateContext :=
       (\<lambda>purpose code. [''styles'' \<mapsto> Str ''S'', ''body'' \<mapsto> Str ''B'']) \<rparr>"

section \<open>Properties\<close>

subsection \<open>Shared facts\<close>

lemma indexOf_full_purposes:
  "(indexOf FULL_EMAIL_PURPOSES purpose = -1) =
     (purpose \<noteq> INVITATION \<and> purpose \<noteq> PASSWORD_RECOVERY \<and> purpose \<noteq> WELCOME)"
  by (simp add: indexOf_def FULL_EMAIL_PURPOSES_def)

lemma createSMTPTransport_eq:
  "createSMTPTransport config =
     ([CreateTransport (transport_options_of config)], Transport (transport_options_of config))"
  by (cases "secure config") (auto simp: createSMTPTransport_def transport_options_of_def Let_def)

lemma getSmtpConfiguration_eq:
  "getSmtpConfiguration e db groupId =
     ([DetermineScopedConfig db (smtp_query groupId)], determineScopedConfig e db (smtp_query groupId))"
  by (cases groupId) (auto simp: getSmtpConfiguration_def smtp_query_def Let_def)

lemma getLinkCode_no_render:
  "\<not> list_ex is_render (fst (getLinkCode e purpose email usr))"
  by (cases purpose; cases usr) (simp_all add: getLinkCode_def)

lemma getLinkCode_no_transport:
  "\<not> list_ex is_transport_event (fst (getLinkCode e purpose email usr))"
  by (cases purpose; cases usr) (simp_all add: getLinkCode_def)

lemma buildEmail_missing:
  assumes "purpose = INVITATION \<or> purpose = PASSWORD_RECOVERY \<or> purpose = WELCOME"
    and "\<not> fragments_present e purpose"
  shows "buildEmail e purpose email usr =
           (template_lookups purpose,
            Inl (Thrown ''Unable to build email, missing base components''))"
  using assms
  by (auto simp: buildEmail_def indexOf_full_purposes fragments_present_def
      template_lookups_def Let_def split: option.splits)

lemma buildEmail_present:
  assumes "purpose = INVITATION \<or> purpose = PASSWORD_RECOVERY \<or> purpose = WELCOME"
    and "getTemplateByPurpose e TYPE' BASE = Some base"
    and "getTemplateByPurpose e TYPE' STYLES = Some styles"
    and "getTemplateByPurpose e TYPE' purpose = Some body"
  shows "buildEmail e purpose email usr =
     (case getLinkCode e purpose email usr of
        (tc, Inl err) \<Rightarrow> (template_lookups purpose @ tc, Inl err)
      | (tc, Inr code) \<Rightarrow>
          (let context = (getSettingsTemplateContext e purpose code)
                           (''email'' \<mapsto> Str email,
                            ''user'' \<mapsto> (case usr of Some u \<Rightarrow> UserObj u | None \<Rightarrow> EmptyObj));
               context' = context
                           (''styles'' \<mapsto> Str (processString e (contents styles) context),
                            ''body'' \<mapsto> Str (processString e (contents body) context))
           in (template_lookups purpose @ tc @
                 [GetSettingsTemplateContext purpose code,
                  ProcessString (contents body) context,
                  ProcessString (contents styles) context,
                  ProcessString (contents base) context'],
               Inr (processString e (contents base) context'))))"
  using assms
  by (auto simp: buildEmail_def indexOf_full_purposes template_lookups_def Let_def
      split: prod.splits sum.splits)

lemma buildEmail_no_transport:
  "\<not> list_ex is_transport_event (fst (buildEmail e purpose email usr))"
  using getLinkCode_no_transport[of e purpose email usr]
  by (auto simp: buildEmail_def Let_def split: option.splits prod.splits sum.splits)

lemma getLinkCode_filter_render:
  "filter is_render (fst (getLinkCode e purpose email usr)) = []"
  by (cases purpose; cases usr) (simp_all add: getLinkCode_def)

lemma buildEmail_filter_transport:
  "filter is_transport_event (fst (buildEmail e purpose email usr)) = []"
  using buildEmail_no_transport[of e purpose email usr]
  by (simp add: list_ex_iff filter_empty_conv)

lemma sendEmail_found:
  assumes "determineScopedConfig e (CouchDB (GLOBAL_DB e)) (smtp_query groupId) = Inr (Some config)"
  shows "sendEmail e email purpose groupId usr =
     (case buildEmail e purpose email usr of
        (t, Inl err) \<Rightarrow>
          ([DetermineScopedConfig (CouchDB (GLOBAL_DB e)) (smtp_query groupId),
            CreateTransport (transport_options_of config)] @ t, Inl err)
      | (t, Inr html) \<Rightarrow>
          ([DetermineScopedConfig (CouchDB (GLOBAL_DB e)) (smtp_query groupId),
            CreateTransport (transport_options_of config)] @ t @
           [SendMail (Transport (transport_options_of config))
              \<lparr> msg_from = from_address config, msg_subject = subject config,
                msg_to = email, msg_html = html \<rparr>],
           sendMail e (Transport (transport_options_of config))
              \<lparr> msg_from = from_address config, msg_subject = subject config,
                msg_to = email, msg_html = html \<rparr>))"
  using assms
  by (simp add: sendEmail_def getSmtpConfiguration_eq createSMTPTransport_eq Let_def
      split: prod.splits sum.splits)

lemmas sample_defs = sample_env_def sample_env_no_base_def sample_env_no_config_def
  sample_env_store_down_def sample_env_settings_keys_def
  sample_templates_def sample_render_def sample_settings_def sample_config_def

subsection \<open>Composition: order of lookups\<close>

text \<open>
  C1, as stated: the link-code resolution is issued together with the template lookups,
  as an operation independent of them. At an invitation on an installation whose base
  template is missing, \<open>getLinkCode\<close> would ask the code issuer for an invite code, yet
  the composition issues no link-code request at all: it stops after the three lookups.
\<close>

theorem buildEmail_link_code_not_concurrent:
  "fst (getLinkCode sample_env_no_base INVITATION ''new@example.com'' None)
     = [GetInviteCode ''new@example.com''] \<and>
   \<not> list_ex is_link_code_request
       (fst (buildEmail sample_env_no_base INVITATION ''new@example.com'' None))"
  by (simp add: buildEmail_def getLinkCode_def indexOf_def FULL_EMAIL_PURPOSES_def
      TYPE'_def sample_defs)

text \<open>
  C1, amended: for every full-email purpose the three template lookups are issued first.
  When a fragment is missing nothing else is issued. When all three are there, the
  link-code resolution follows the lookups, and only after it has returned a code is
  the settings context requested and are the fragments rendered; when it throws,
  nothing follows it.
\<close>

theorem buildEmail_link_code_after_templates:
  assumes "purpose \<in> {INVITATION, PASSWORD_RECOVERY, WELCOME}"
  shows "(\<not> fragments_present e purpose \<longrightarrow>
            fst (buildEmail e purpose email usr) = template_lookups purpose) \<and>
         (fragments_present e purpose \<longrightarrow>
            (\<exists>rest. fst (buildEmail e purpose email usr) =
                 template_lookups purpose @ fst (getLinkCode e purpose email usr) @ rest \<and>
               (case snd (getLinkCode e purpose email usr) of
                  Inl err \<Rightarrow> rest = []
                | Inr code \<Rightarrow>
                    (\<exists>renders. rest = GetSettingsTemplateContext purpose code # renders \<and>
                       list_all is_render renders))))"
proof -
  from assms have full: "purpose = INVITATION \<or> purpose = PASSWORD_RECOVERY \<or> purpose = WELCOME"
    by simp
  have absent: "\<not> fragments_present e purpose \<Longrightarrow>
      fst (buildEmail e purpose email usr) = template_lookups purpose"
    using buildEmail_missing[OF full] by simp
  have present: "\<exists>rest. fst (buildEmail e purpose email usr) =
                 template_lookups purpose @ fst (getLinkCode e purpose email usr) @ rest \<and>
               (case snd (getLinkCode e purpose email usr) of
                  Inl err \<Rightarrow> rest = []
                | Inr code \<Rightarrow>
                    (\<exists>renders. rest = GetSettingsTemplateContext purpose code # renders \<and>
                       list_all is_render renders))"
    if "fragments_present e purpose"
  proof -
    from that obtain base styles body where
      "getTemplateByPurpose e TYPE' BASE = Some base"
      "getTemplateByPurpose e TYPE' STYLES = Some styles"
      "getTemplateByPurpose e TYPE' purpose = Some body"
      by (auto simp: fragments_present_def)
    note eq = buildEmail_present[OF full this, of email usr]
    show ?thesis
    proof (cases "getLinkCode e purpose email usr")
      case (Pair tc r)
      then show ?thesis using eq by (cases r) (simp_all add: Let_def)
    qed
  qed
  from absent present show ?thesis by blast
qed

theorem buildEmail_link_code_after_templates_witness:
  "INVITATION \<in> {INVITATION, PASSWORD_RECOVERY, WELCOME} \<and>
   fragments_present sample_env INVITATION \<and>
   (\<exists>rest. fst (buildEmail sample_env INVITATION ''new@example.com'' None) =
        template_lookups INVITATION @ [GetInviteCode ''new@example.com''] @ rest \<and>
      (\<exists>renders. rest = GetSettingsTemplateContext INVITATION (Some ''invite-new@example.com'') # renders \<and>
       list_all is_render renders))"
proof -
  have h: "INVITATION \<in> {INVITATION, PASSWORD_RECOVERY, WELCOME}" by simp
  have p: "fragments_present sample_env INVITATION"
    by (simp add: fragments_present_def sample_defs)
  have c: "getLinkCode sample_env INVITATION ''new@example.com'' None =
     ([GetInviteCode ''new@example.com''], Inr (Some ''invite-new@example.com''))"
    by (simp add: getLinkCode_def sample_defs)
  show ?thesis
    using h p buildEmail_link_code_after_templates[OF h, of sample_env "''new@example.com''" None]
    by (simp add: c)
qed

subsection \<open>Configuration check\<close>

text \<open>
  C2, as stated: \<open>isEmailConfigured\<close> never throws. While the config store cannot be
  reached the awaited lookup fails, and \<open>isEmailConfigured\<close> fails with the error of the
  store.
\<close>

theorem isEmailConfigured_store_failure_propagates:
  "isEmailConfigured sample_env_store_down None =
     ([DetermineScopedConfig (CouchDB ''global-db'')
         \<lparr> params_type = SMTP, params_group = None \<rparr>],
      Inl (StoreFailure ''connection refused''))"
  by (simp add: isEmailConfigured_def getSmtpConfiguration_def Let_def sample_defs)

text \<open>
  C2, amended: for every scope, \<open>isEmailConfigured\<close> sends one query to the config store.
  It resolves to \<open>true\<close> exactly when the store finds an SMTP configuration for the query,
  and to \<open>false\<close> exactly when the store finds none: the absence of a configuration is
  never thrown. It throws exactly when the lookup itself fails, and then with the error
  of the store.
\<close>

theorem isEmailConfigured_result:
  "fst (isEmailConfigured e groupId) =
     [DetermineScopedConfig (CouchDB (GLOBAL_DB e)) (smtp_query groupId)] \<and>
   (snd (isEmailConfigured e groupId) = Inr True \<longleftrightarrow>
      (\<exists>config. determineScopedConfig e (CouchDB (GLOBAL_DB e)) (smtp_query groupId)
                  = Inr (Some config))) \<and>
   (snd (isEmailConfigured e groupId) = Inr False \<longleftrightarrow>
      determineScopedConfig e (CouchDB (GLOBAL_DB e)) (smtp_query groupId) = Inr None) \<and>
   (\<forall>err. snd (isEmailConfigured e groupId) = Inl err \<longleftrightarrow>
      determineScopedConfig e (CouchDB (GLOBAL_DB e)) (smtp_query groupId) = Inl err)"
proof (cases "determineScopedConfig e (CouchDB (GLOBAL_DB e)) (smtp_query groupId)")
  case (Inl err)
  then show ?thesis
    by (simp add: isEmailConfigured_def getSmtpConfiguration_eq Let_def)
next
  case (Inr found)
  then show ?thesis
    by (cases found) (simp_all add: isEmailConfigured_def getSmtpConfiguration_eq Let_def)
qed

theorem isEmailConfigured_result_witness:
  "snd (isEmailConfigured sample_env (Some ''group-1'')) = Inr True \<and>
   snd (isEmailConfigured sample_env_no_config (Some ''group-1'')) = Inr False \<and>
   snd (isEmailConfigured sample_env_no_config None) = Inr False \<and>
   snd (isEmailConfigured sample_env_store_down None) = Inl (StoreFailure ''connection refused'')"
  using isEmailConfigured_result[of sample_env "Some ''group-1''"]
    isEmailConfigured_result[of sample_env_no_config "Some ''group-1''"]
    isEmailConfigured_result[of sample_env_no_config None]
    isEmailConfigured_result[of sample_env_store_down None]
  by (simp add: sample_defs)

subsection \<open>Composition: failures\<close>



text \<open>
  C4: for every purpose outside invitation, password recovery and welcome, \<open>buildEmail\<close>
  throws at once: no lookup and no other call has been issued.
\<close>

theorem buildEmail_unsupported_purpose:
  assumes "purpose \<notin> {INVITATION, PASSWORD_RECOVERY, WELCOME}"
  shows "buildEmail e purpose email usr = ([], Inl (UnableToBuildType purpose))"
  using assms by (simp add: buildEmail_def indexOf_full_purposes)

theorem buildEmail_unsupported_purpose_witness:
  "STYLES \<notin> {INVITATION, PASSWORD_RECOVERY, WELCOME} \<and>
   buildEmail sample_env STYLES ''a@example.com'' None = ([], Inl (UnableToBuildType STYLES))"
proof -
  have h: "STYLES \<notin> {INVITATION, PASSWORD_RECOVERY, WELCOME}" by simp
  show ?thesis using h buildEmail_unsupported_purpose[OF h, of sample_env "''a@example.com''" None] by simp
qed

subsection \<open>Composition: rendering\<close>

text \<open>
  C5, as stated: the body and styles renders never see \<open>styles\<close> or \<open>body\<close> values in
  their context. The context of these two renders starts from the settings context; on
  an installation whose settings define \<open>styles\<close> and \<open>body\<close>, both renders see both keys.
\<close>

theorem buildEmail_render_sees_settings_keys:
  "filter is_render (fst (buildEmail sample_env_settings_keys WELCOME ''a@example.com'' None)) =
     [ProcessString ''hello''
        [''styles'' \<mapsto> Str ''S'', ''body'' \<mapsto> Str ''B'',
         ''email'' \<mapsto> Str ''a@example.com'', ''user'' \<mapsto> EmptyObj],
      ProcessString ''css''
        [''styles'' \<mapsto> Str ''S'', ''body'' \<mapsto> Str ''B'',
         ''email'' \<mapsto> Str ''a@example.com'', ''user'' \<mapsto> EmptyObj],
      ProcessString ''base:''
        [''styles'' \<mapsto> Str ''S'', ''body'' \<mapsto> Str ''B'',
         ''email'' \<mapsto> Str ''a@example.com'', ''user'' \<mapsto> EmptyObj,
         ''styles'' \<mapsto> Str ''cssSB'', ''body'' \<mapsto> Str ''helloSB'']] \<and>
   list_all (\<lambda>ev. render_sees ''styles'' ev \<and> render_sees ''body'' ev)
     (take 2 (filter is_render
        (fst (buildEmail sample_env_settings_keys WELCOME ''a@example.com'' None))))"
  by (simp add: buildEmail_def getLinkCode_def indexOf_def FULL_EMAIL_PURPOSES_def
      TYPE'_def sample_defs Let_def)

text \<open>
  C5, amended: in every successful composition the renders are, in this order, body,
  styles, base. Body and styles are rendered with one and the same context, the
  settings context extended by \<open>email\<close> and \<open>user\<close> and by nothing else. The base is
  rendered with that context extended by exactly the two rendered strings, and its
  result is the document. When the settings context defines neither \<open>styles\<close> nor \<open>body\<close>,
  the body and styles renders see neither key.
\<close>

theorem buildEmail_render_order:
  assumes "buildEmail e purpose email usr = (t, Inr html)"
  shows "\<exists>base styles body code context.
     getTemplateByPurpose e TYPE' BASE = Some base \<and>
     getTemplateByPurpose e TYPE' STYLES = Some styles \<and>
     getTemplateByPurpose e TYPE' purpose = Some body \<and>
     snd (getLinkCode e purpose email usr) = Inr code \<and>
     context = (getSettingsTemplateContext e purpose code)
                 (''email'' \<mapsto> Str email,
                  ''user'' \<mapsto> (case usr of Some u \<Rightarrow> UserObj u | None \<Rightarrow> EmptyObj)) \<and>
     filter is_render t =
       [ProcessString (contents body) context,
        ProcessString (contents styles) context,
        ProcessString (contents base)
          (context(''styles'' \<mapsto> Str (processString e (contents styles) context),
                   ''body'' \<mapsto> Str (processString e (contents body) context)))] \<and>
     html = processString e (contents base)
          (context(''styles'' \<mapsto> Str (processString e (contents styles) context),
                   ''body'' \<mapsto> Str (processString e (contents body) context))) \<and>
     (getSettingsTemplateContext e purpose code ''styles'' = None \<and>
      getSettingsTemplateContext e purpose code ''body'' = None \<longrightarrow>
        list_all (\<lambda>ev. \<not> render_sees ''styles'' ev \<and> \<not> render_sees ''body'' ev)
          (take 2 (filter is_render t)))"
proof -
  have full: "purpose = INVITATION \<or> purpose = PASSWORD_RECOVERY \<or> purpose = WELCOME"
  proof (rule ccontr)
    assume "\<not> ?thesis"
    then have "buildEmail e purpose email usr = ([], Inl (UnableToBuildType purpose))"
      by (simp add: buildEmail_def indexOf_full_purposes)
    with assms show False by simp
  qed
  have "fragments_present e purpose"
  proof (rule ccontr)
    assume "\<not> ?thesis"
    from buildEmail_missing[OF full this, of email usr] assms show False by simp
  qed
  then obtain base styles body where tpl:
    "getTemplateByPurpose e TYPE' BASE = Some base"
    "getTemplateByPurpose e TYPE' STYLES = Some styles"
    "getTemplateByPurpose e TYPE' purpose = Some body"
    by (auto simp: fragments_present_def)
  note eq = buildEmail_present[OF full tpl, of email usr]
  obtain tc r where lc: "getLinkCode e purpose email usr = (tc, r)"
    by (cases "getLinkCode e purpose email usr")
  from eq lc assms obtain code where r: "r = Inr code"
    by (cases r) simp_all
  have tc: "filter is_render tc = []"
    using getLinkCode_filter_render[of e purpose email usr] lc by simp
  from eq lc r assms tc tpl show ?thesis
    by (auto simp: Let_def template_lookups_def)
qed

theorem buildEmail_render_order_witness:
  "buildEmail sample_env WELCOME ''a@example.com'' None =
     (template_lookups WELCOME @
        [GetSettingsTemplateContext WELCOME None,
         ProcessString ''hello'' [''company'' \<mapsto> Str ''Budibase'', ''email'' \<mapsto> Str ''a@example.com'', ''user'' \<mapsto> EmptyObj],
         ProcessString ''css'' [''company'' \<mapsto> Str ''Budibase'', ''email'' \<mapsto> Str ''a@example.com'', ''user'' \<mapsto> EmptyObj],
         ProcessString ''base:'' [''company'' \<mapsto> Str ''Budibase'', ''email'' \<mapsto> Str ''a@example.com'', ''user'' \<mapsto> EmptyObj,
            ''styles'' \<mapsto> Str ''css'', ''body'' \<mapsto> Str ''hello'']],
      Inr ''base:csshello'') \<and>
   getSettingsTemplateContext sample_env WELCOME None ''styles'' = None \<and>
   getSettingsTemplateContext sample_env WELCOME None ''body'' = None \<and>
   (\<exists>cx.
      cx = [''company'' \<mapsto> Str ''Budibase'', ''email'' \<mapsto> Str ''a@example.com'', ''user'' \<mapsto> EmptyObj] \<and>
      filter is_render (fst (buildEmail sample_env WELCOME ''a@example.com'' None)) =
        [ProcessString ''hello'' cx, ProcessString ''css'' cx,
         ProcessString ''base:'' (cx(''styles'' \<mapsto> Str ''css'', ''body'' \<mapsto> Str ''hello''))]) \<and>
   list_all (\<lambda>ev. \<not> render_sees ''styles'' ev \<and> \<not> render_sees ''body'' ev)
     (take 2 (filter is_render (fst (buildEmail sample_env WELCOME ''a@example.com'' None))))"
proof -
  let ?t = "template_lookups WELCOME @
        [GetSettingsTemplateContext WELCOME None,
         ProcessString ''hello'' [''company'' \<mapsto> Str ''Budibase'', ''email'' \<mapsto> Str ''a@example.com'', ''user'' \<mapsto> EmptyObj],
         ProcessString ''css'' [''company'' \<mapsto> Str ''Budibase'', ''email'' \<mapsto> Str ''a@example.com'', ''user'' \<mapsto> EmptyObj],
         ProcessString ''base:'' [''company'' \<mapsto> Str ''Budibase'', ''email'' \<mapsto> Str ''a@example.com'', ''user'' \<mapsto> EmptyObj,
            ''styles'' \<mapsto> Str ''css'', ''body'' \<mapsto> Str ''hello'']]"
  have run: "buildEmail sample_env WELCOME ''a@example.com'' None = (?t, Inr ''base:csshello'')"
    by (simp add: buildEmail_def getLinkCode_def indexOf_def FULL_EMAIL_PURPOSES_def
        template_lookups_def TYPE'_def sample_defs Let_def)
  have s1: "getSettingsTemplateContext sample_env WELCOME None ''styles'' = None"
    and s2: "getSettingsTemplateContext sample_env WELCOME None ''body'' = None"
    by (simp_all add: sample_defs)
  from buildEmail_render_order[OF run] obtain base styles body code cx where
    b: "getTemplateByPurpose sample_env TYPE' BASE = Some base" and
    s: "getTemplateByPurpose sample_env TYPE' STYLES = Some styles" and
    p: "getTemplateByPurpose sample_env TYPE' WELCOME = Some body" and
    c: "snd (getLinkCode sample_env WELCOME ''a@example.com'' None) = Inr code" and
    ctx: "cx = (getSettingsTemplateContext sample_env WELCOME code)
                 (''email'' \<mapsto> Str ''a@example.com'',
                  ''user'' \<mapsto> (case None :: user option of Some u \<Rightarrow> UserObj u | None \<Rightarrow> EmptyObj))" and
    f: "filter is_render ?t =
       [ProcessString (contents body) cx,
        ProcessString (contents styles) cx,
        ProcessString (contents base)
          (cx(''styles'' \<mapsto> Str (processString sample_env (contents styles) cx),
                   ''body'' \<mapsto> Str (processString sample_env (contents body) cx)))]" and
    vis: "getSettingsTemplateContext sample_env WELCOME code ''styles'' = None \<and>
          getSettingsTemplateContext sample_env WELCOME code ''body'' = None \<longrightarrow>
          list_all (\<lambda>ev. \<not> render_sees ''styles'' ev \<and> \<not> render_sees ''body'' ev)
            (take 2 (filter is_render ?t))"
    by blast
  from b have base: "contents base = ''base:''" by (auto simp: sample_defs)
  from s have styles: "contents styles = ''css''" by (auto simp: sample_defs)
  from p have body: "contents body = ''hello''" by (auto simp: sample_defs)
  from c have code: "code = None" by (simp add: getLinkCode_def)
  from ctx code have cxeq:
    "cx = [''company'' \<mapsto> Str ''Budibase'', ''email'' \<mapsto> Str ''a@example.com'', ''user'' \<mapsto> EmptyObj]"
    by (simp add: sample_defs)
  have r1: "processString sample_env ''css'' cx = ''css''"
    by (simp add: cxeq sample_defs)
  have r2: "processString sample_env ''hello'' cx = ''hello''"
    by (simp add: cxeq sample_defs)
  from f have f': "filter is_render (fst (buildEmail sample_env WELCOME ''a@example.com'' None)) =
        [ProcessString ''hello'' cx, ProcessString ''css'' cx,
         ProcessString ''base:'' (cx(''styles'' \<mapsto> Str ''css'', ''body'' \<mapsto> Str ''hello''))]"
    by (simp only: run fst_conv base styles body r1 r2)
  from vis code s1 s2 have unseen:
    "list_all (\<lambda>ev. \<not> render_sees ''styles'' ev \<and> \<not> render_sees ''body'' ev)
       (take 2 (filter is_render (fst (buildEmail sample_env WELCOME ''a@example.com'' None))))"
    by (simp only: run fst_conv simp_thms)
  from run s1 s2 cxeq f' unseen show ?thesis by blast
qed

subsection \<open>Link codes\<close>

text \<open>
  C6: \<open>getLinkCode\<close> dispatches on the purpose. Password recovery asks for a reset code
  for the identity of the user, not for the email address; an invitation asks for an
  invite code for the email address; every other purpose resolves to \<open>null\<close> and calls
  nothing.
\<close>

theorem getLinkCode_dispatch:
  "getLinkCode e PASSWORD_RECOVERY email (Some u) =
     ([GetResetPasswordCode (user_id u)], Inr (Some (getResetPasswordCode e (user_id u)))) \<and>
   getLinkCode e INVITATION email usr =
     ([GetInviteCode email], Inr (Some (getInviteCode e email))) \<and>
   (purpose \<noteq> PASSWORD_RECOVERY \<and> purpose \<noteq> INVITATION \<longrightarrow>
      getLinkCode e purpose email usr = ([], Inr None))"
  by (cases purpose) (simp_all add: getLinkCode_def)

theorem getLinkCode_dispatch_witness:
  "getLinkCode sample_env PASSWORD_RECOVERY ''a@example.com'' (Some \<lparr> user_id = ''us_1'' \<rparr>) =
     ([GetResetPasswordCode ''us_1''], Inr (Some ''reset-us_1'')) \<and>
   getLinkCode sample_env INVITATION ''a@example.com'' (Some \<lparr> user_id = ''us_1'' \<rparr>) =
     ([GetInviteCode ''a@example.com''], Inr (Some ''invite-a@example.com'')) \<and>
   WELCOME \<noteq> PASSWORD_RECOVERY \<and> WELCOME \<noteq> INVITATION \<and>
   getLinkCode sample_env WELCOME ''a@example.com'' (Some \<lparr> user_id = ''us_1'' \<rparr>) = ([], Inr None)"
  using getLinkCode_dispatch[of sample_env "''a@example.com''" "\<lparr> user_id = ''us_1'' \<rparr>" "Some \<lparr> user_id = ''us_1'' \<rparr>" WELCOME]
  by (simp add: sample_defs)

text \<open>
  C7: for a password recovery with no user, \<open>getLinkCode\<close> reads the identity of the
  missing user and throws before any call to the code issuer; the composition reaches
  that point whenever the three fragments are stored, and fails with the same error.
\<close>

theorem getLinkCode_missing_user_throws:
  "getLinkCode e PASSWORD_RECOVERY email None = ([], Inl TypeError) \<and>
   (fragments_present e PASSWORD_RECOVERY \<longrightarrow>
      buildEmail e PASSWORD_RECOVERY email None =
        (template_lookups PASSWORD_RECOVERY, Inl TypeError))"
proof -
  have lc: "getLinkCode e PASSWORD_RECOVERY email None = ([], Inl TypeError)"
    by (simp add: getLinkCode_def)
  have "buildEmail e PASSWORD_RECOVERY email None =
        (template_lookups PASSWORD_RECOVERY, Inl TypeError)"
    if "fragments_present e PASSWORD_RECOVERY"
  proof -
    from that obtain base styles body where
      "getTemplateByPurpose e TYPE' BASE = Some base"
      "getTemplateByPurpose e TYPE' STYLES = Some styles"
      "getTemplateByPurpose e TYPE' PASSWORD_RECOVERY = Some body"
      by (auto simp: fragments_present_def)
    from buildEmail_present[OF _ this, of email None] show ?thesis
      by (simp add: lc)
  qed
  with lc show ?thesis by blast
qed

theorem getLinkCode_missing_user_throws_witness:
  "fragments_present sample_env PASSWORD_RECOVERY \<and>
   getLinkCode sample_env PASSWORD_RECOVERY ''a@example.com'' None = ([], Inl TypeError) \<and>
   buildEmail sample_env PASSWORD_RECOVERY ''a@example.com'' None =
        (template_lookups PASSWORD_RECOVERY, Inl TypeError)"
proof -
  have p: "fragments_present sample_env PASSWORD_RECOVERY"
    by (simp add: fragments_present_def sample_defs)
  show ?thesis using p getLinkCode_missing_user_throws[of sample_env "''a@example.com''"] by simp
qed

subsection \<open>Dispatch\<close>

text \<open>
  C8: when the config store finds no SMTP configuration for the query of the scope,
  \<open>sendEmail\<close> throws the configuration-not-found message after that one query: no
  transport is created and nothing is sent.
\<close>

theorem sendEmail_no_configuration:
  assumes "determineScopedConfig e (CouchDB (GLOBAL_DB e)) (smtp_query groupId) = Inr None"
  shows "sendEmail e email purpose groupId usr =
           ([DetermineScopedConfig (CouchDB (GLOBAL_DB e)) (smtp_query groupId)],
            Inl (Thrown ''Unable to find SMTP configuration.'')) \<and>
         \<not> list_ex is_transport_event (fst (sendEmail e email purpose groupId usr))"
  using assms by (simp add: sendEmail_def getSmtpConfiguration_eq Let_def)

theorem sendEmail_no_configuration_witness:
  "determineScopedConfig sample_env_no_config (CouchDB (GLOBAL_DB sample_env_no_config))
     (smtp_query (Some ''group-1'')) = Inr None \<and>
   sendEmail sample_env_no_config ''a@example.com'' WELCOME (Some ''group-1'') None =
     ([DetermineScopedConfig (CouchDB ''global-db'')
         \<lparr> params_type = SMTP, params_group = Some ''group-1'' \<rparr>],
      Inl (Thrown ''Unable to find SMTP configuration.'')) \<and>
   \<not> list_ex is_transport_event
       (fst (sendEmail sample_env_no_config ''a@example.com'' WELCOME (Some ''group-1'') None))"
proof -
  have h: "determineScopedConfig sample_env_no_config (CouchDB (GLOBAL_DB sample_env_no_config))
     (smtp_query (Some ''group-1'')) = Inr None"
    by (simp add: sample_defs)
  show ?thesis
    using h sendEmail_no_configuration[OF h, of "''a@example.com''" WELCOME None]
    by (simp add: sample_defs smtp_query_def)
qed

subsection \<open>Transport construction\<close>

text \<open>
  C9: \<open>verifyConfig\<close> and \<open>sendEmail\<close> create their transport from a configuration with
  the same options: host, port, secure flag and auth of the configuration, and the
  \<open>tls\<close> option that stops certificate rejection exactly when \<open>selfSigned\<close> is set. The
  relaxation is a field of the options of that one transport; besides creating the
  transport, the only transport calls are \<open>verify\<close>, respectively \<open>sendMail\<close>, on it.
\<close>

theorem verifyConfig_same_transport:
  "\<exists>opts.
     createSMTPTransport config = ([CreateTransport opts], Transport opts) \<and>
     opt_host opts = host config \<and>
     opt_port opts = port config \<and>
     opt_secure opts = (secure config = Some True) \<and>
     opt_auth opts = auth config \<and>
     opt_tls opts = (if selfSigned config = Some True
                     then Some \<lparr> rejectUnauthorized = False \<rparr> else None) \<and>
     verifyConfig e config =
       ([CreateTransport opts, Verify (Transport opts)], verify e (Transport opts)) \<and>
     (determineScopedConfig e (CouchDB (GLOBAL_DB e)) (smtp_query groupId) = Inr (Some config) \<longrightarrow>
        (\<exists>sent. filter is_transport_event (fst (sendEmail e email purpose groupId usr)) =
                  CreateTransport opts # sent \<and>
                list_all (\<lambda>ev. \<exists>m. ev = SendMail (Transport opts) m) sent))"
proof -
  let ?opts = "transport_options_of config"
  have v: "verifyConfig e config =
       ([CreateTransport ?opts, Verify (Transport ?opts)], verify e (Transport ?opts))"
    by (simp add: verifyConfig_def createSMTPTransport_eq)
  have s: "\<exists>sent. filter is_transport_event (fst (sendEmail e email purpose groupId usr)) =
                  CreateTransport ?opts # sent \<and>
                list_all (\<lambda>ev. \<exists>m. ev = SendMail (Transport ?opts) m) sent"
    if found: "determineScopedConfig e (CouchDB (GLOBAL_DB e)) (smtp_query groupId) = Inr (Some config)"
  proof (cases "buildEmail e purpose email usr")
    case (Pair t r)
    with buildEmail_filter_transport[of e purpose email usr]
    have t: "filter is_transport_event t = []" by simp
    show ?thesis
      using sendEmail_found[OF found, of email purpose usr] Pair t
      by (cases r) simp_all
  qed
  have f: "opt_host ?opts = host config" "opt_port ?opts = port config"
    "opt_secure ?opts = (secure config = Some True)" "opt_auth ?opts = auth config"
    "opt_tls ?opts = (if selfSigned config = Some True
                     then Some \<lparr> rejectUnauthorized = False \<rparr> else None)"
    by (simp_all add: transport_options_of_def)
  from createSMTPTransport_eq[of config] f v s show ?thesis by blast
qed

theorem verifyConfig_same_transport_witness:
  "determineScopedConfig sample_env (CouchDB (GLOBAL_DB sample_env)) (smtp_query None)
     = Inr (Some sample_config) \<and>
   (\<exists>opts.
     opts = \<lparr> opt_port = 587, opt_host = ''smtp.example.com'', opt_secure = False,
              opt_auth = None, opt_tls = Some \<lparr> rejectUnauthorized = False \<rparr> \<rparr> \<and>
     createSMTPTransport sample_config = ([CreateTransport opts], Transport opts) \<and>
     verifyConfig sample_env sample_config =
       ([CreateTransport opts, Verify (Transport opts)], Inr ()) \<and>
     (\<exists>sent. filter is_transport_event
               (fst (sendEmail sample_env ''a@example.com'' WELCOME None None)) =
             CreateTransport opts # sent \<and>
           list_all (\<lambda>ev. \<exists>m. ev = SendMail (Transport opts) m) sent))"
proof -
  have h: "determineScopedConfig sample_env (CouchDB (GLOBAL_DB sample_env)) (smtp_query None)
     = Inr (Some sample_config)"
    by (simp add: sample_env_def)
  from verifyConfig_same_transport[of sample_config sample_env None "''a@example.com''" WELCOME None] h
  obtain opts where
    c: "createSMTPTransport sample_config = ([CreateTransport opts], Transport opts)" and
    v: "verifyConfig sample_env sample_config =
       ([CreateTransport opts, Verify (Transport opts)], verify sample_env (Transport opts))" and
    s: "\<exists>sent. filter is_transport_event
               (fst (sendEmail sample_env ''a@example.com'' WELCOME None None)) =
             CreateTransport opts # sent \<and>
           list_all (\<lambda>ev. \<exists>m. ev = SendMail (Transport opts) m) sent"
    by blast
  from c have o: "opts = \<lparr> opt_port = 587, opt_host = ''smtp.example.com'', opt_secure = False,
              opt_auth = None, opt_tls = Some \<lparr> rejectUnauthorized = False \<rparr> \<rparr>"
    by (simp add: createSMTPTransport_eq transport_options_of_def sample_config_def)
  from v have v': "verifyConfig sample_env sample_config =
       ([CreateTransport opts, Verify (Transport opts)], Inr ())"
    by (simp add: sample_env_def)
  from h o c v' s show ?thesis by blast
qed

text \<open>
  C10: once a configuration is found, \<open>sendEmail\<close> creates the transport before the
  composition starts; when the composition fails, its error is the result of
  \<open>sendEmail\<close>, nothing follows, and the transport has already been created.
\<close>

theorem sendEmail_transport_before_composition:
  assumes "determineScopedConfig e (CouchDB (GLOBAL_DB e)) (smtp_query groupId) = Inr (Some config)"
  shows "\<exists>rest. fst (sendEmail e email purpose groupId usr) =
           [DetermineScopedConfig (CouchDB (GLOBAL_DB e)) (smtp_query groupId)] @
           fst (createSMTPTransport config) @
           fst (buildEmail e purpose email usr) @ rest \<and>
         (case snd (buildEmail e purpose email usr) of
            Inl err \<Rightarrow> rest = [] \<and> snd (sendEmail e email purpose groupId usr) = Inl err \<and>
                       list_ex is_transport_event (fst (sendEmail e email purpose groupId usr))
          | Inr html \<Rightarrow> list_all is_transport_event rest)"
proof (cases "buildEmail e purpose email usr")
  case (Pair t r)
  then show ?thesis
    using sendEmail_found[OF assms, of email purpose usr]
    by (cases r) (simp_all add: createSMTPTransport_eq)
qed

theorem sendEmail_transport_before_composition_witness:
  "determineScopedConfig sample_env (CouchDB (GLOBAL_DB sample_env)) (smtp_query None)
     = Inr (Some sample_config) \<and>
   sendEmail sample_env ''a@example.com'' BASE None None =
     ([DetermineScopedConfig (CouchDB ''global-db'') \<lparr> params_type = SMTP, params_group = None \<rparr>,
       CreateTransport (transport_options_of sample_config)],
      Inl (UnableToBuildType BASE)) \<and>
   fst (sendEmail sample_env_no_base ''a@example.com'' WELCOME None None) =
     [DetermineScopedConfig (CouchDB ''global-db'') \<lparr> params_type = SMTP, params_group = None \<rparr>,
      CreateTransport (transport_options_of sample_config)] @ template_lookups WELCOME"
proof -
  have h: "determineScopedConfig sample_env (CouchDB (GLOBAL_DB sample_env)) (smtp_query None)
     = Inr (Some sample_config)"
    by (simp add: sample_env_def)
  have h': "determineScopedConfig sample_env_no_base (CouchDB (GLOBAL_DB sample_env_no_base)) (smtp_query None)
     = Inr (Some sample_config)"
    by (simp add: sample_env_def sample_env_no_base_def)
  have b1: "buildEmail sample_env BASE ''a@example.com'' None = ([], Inl (UnableToBuildType BASE))"
    by (simp add: buildEmail_def indexOf_full_purposes)
  have b2: "buildEmail sample_env_no_base WELCOME ''a@example.com'' None =
     (template_lookups WELCOME, Inl (Thrown ''Unable to build email, missing base components''))"
    by (rule buildEmail_missing) (simp_all add: fragments_present_def sample_defs)
  show ?thesis
    using h sendEmail_transport_before_composition[OF h, of "''a@example.com''" BASE None]
      sendEmail_transport_before_composition[OF h', of "''a@example.com''" WELCOME None]
    apply (simp add: b1 b2 createSMTPTransport_eq)
    apply (cases "sendEmail sample_env ''a@example.com'' BASE None None")
    apply (simp add: sample_env_def sample_env_no_base_def smtp_query_def)
    done
qed

end
